theory Spec2Isabelle
  imports Main "HOL-Library.Word"
begin

section \<open>JavaScript values\<close>

text \<open>
  The adapter in \<^verbatim>\<open>src/eth-lib-adapters/EthersAdapter.ts\<close> handles untyped values:
  option bags, JSON-RPC results and thrown errors. They are modelled by one datatype.
  An object is the list of its own properties in creation order; every object the
  runtime builds has distinct property names, and \<open>obj_set\<close> keeps it so. Numbers
  that occur here (gas amounts) are integers. Strings are lists of characters; the only
  strings the code slices are ASCII.
\<close>

datatype jsval =
    Undefined
  | Null
  | Bool bool
  | Num int
  | Str string
  | Obj "(string \<times> jsval) list"
  | Arr "jsval list"

type_synonym obj = "(string \<times> jsval) list"

text \<open>
  What a \<^verbatim>\<open>throw\<close> or a rejected promise carries. \<open>TypeError\<close> is the runtime's own
  error for reading a property of \<^verbatim>\<open>undefined\<close>/\<^verbatim>\<open>null\<close> or calling something that is
  not a function. \<open>AddressMismatch expectedFrom from\<close> stands for the adapter's own
  \<^verbatim>\<open>new Error(`want from ${expectedFrom} but got from ${from}`)\<close>. \<open>Thrown v\<close> is a value
  thrown by the wrapped library, the signer or the node.
\<close>

datatype js_error =
    TypeError
  | AddressMismatch string jsval
  | Thrown jsval

subsection \<open>Objects: literals, spread and rest\<close>

text \<open>\<^verbatim>\<open>o[k] = v\<close> on a fresh literal: an existing property keeps its place.\<close>

fun obj_set :: "string \<Rightarrow> jsval \<Rightarrow> obj \<Rightarrow> obj" where
  "obj_set k v [] = [(k, v)]"
| "obj_set k v ((k', v') # ps) =
     (if k' = k then (k, v) # ps else (k', v') # obj_set k v ps)"

text \<open>\<^verbatim>\<open>{ ...base, ...src }\<close>: the properties of \<open>src\<close> are assigned in order.\<close>

fun spread :: "obj \<Rightarrow> obj \<Rightarrow> obj" where
  "spread base [] = base"
| "spread base ((k, v) # ps) = spread (obj_set k v base) ps"

text \<open>\<^verbatim>\<open>...options\<close> where \<open>options\<close> may be \<^verbatim>\<open>undefined\<close>: nothing is copied then.\<close>

definition spread_opt :: "obj \<Rightarrow> obj option \<Rightarrow> obj" where
  "spread_opt base options = (case options of None \<Rightarrow> base | Some ps \<Rightarrow> spread base ps)"

text \<open>\<^verbatim>\<open>const { a, b, ...rest } = o\<close>: the rest object has every property but the named ones.\<close>

definition rest_without :: "string list \<Rightarrow> obj \<Rightarrow> obj" where
  "rest_without ks ps = filter (\<lambda>p. fst p \<notin> set ks) ps"

text \<open>\<^verbatim>\<open>o.k\<close> for an object \<open>o\<close>: the property, or \<^verbatim>\<open>undefined\<close> when there is none.\<close>

definition obj_get :: "obj \<Rightarrow> string \<Rightarrow> jsval" where
  "obj_get ps k = (case map_of ps k of None \<Rightarrow> Undefined | Some v \<Rightarrow> v)"

subsection \<open>Property reads\<close>

text \<open>Decimal spelling of an array index, as property names have it.\<close>

fun string_of_nat :: "nat \<Rightarrow> string" where
  "string_of_nat n =
     (if n < 10 then [''0123456789'' ! n]
      else string_of_nat (n div 10) @ [''0123456789'' ! (n mod 10)])"

declare string_of_nat.simps [simp del]

text \<open>
  \<^verbatim>\<open>Object.getOwnPropertyNames(v)\<close>: a \<^verbatim>\<open>TypeError\<close> on \<^verbatim>\<open>undefined\<close> and \<^verbatim>\<open>null\<close>;
  no names for a boolean or a number; the indices and \<^verbatim>\<open>length\<close> for a string or an
  array; the property names for an object. (The runtime lists index-like names of an
  object first; the adapter keeps only names that begin with \<^verbatim>\<open>0x\<close>, which are never
  index-like, so creation order is the order it sees.)
\<close>

fun getOwnPropertyNames :: "jsval \<Rightarrow> js_error + string list" where
  "getOwnPropertyNames Undefined = Inl TypeError"
| "getOwnPropertyNames Null = Inl TypeError"
| "getOwnPropertyNames (Bool b) = Inr []"
| "getOwnPropertyNames (Num n) = Inr []"
| "getOwnPropertyNames (Str s) = Inr (map string_of_nat [0..<length s] @ [''length''])"
| "getOwnPropertyNames (Arr xs) = Inr (map string_of_nat [0..<length xs] @ [''length''])"
| "getOwnPropertyNames (Obj ps) = Inr (map fst ps)"

text \<open>
  \<^verbatim>\<open>v[k]\<close> for a property name \<open>k\<close>: a \<^verbatim>\<open>TypeError\<close> on \<^verbatim>\<open>undefined\<close> and \<^verbatim>\<open>null\<close>,
  otherwise the own property or \<^verbatim>\<open>undefined\<close>. Inherited methods are left out: the
  names the adapter reads are \<^verbatim>\<open>data\<close>, \<^verbatim>\<open>return\<close>, \<^verbatim>\<open>hash\<close>, \<^verbatim>\<open>undefined\<close> and names
  that begin with \<^verbatim>\<open>0x\<close>, and no prototype of these values has one of them.
\<close>

fun js_get :: "jsval \<Rightarrow> string \<Rightarrow> js_error + jsval" where
  "js_get Undefined k = Inl TypeError"
| "js_get Null k = Inl TypeError"
| "js_get (Bool b) k = Inr Undefined"
| "js_get (Num n) k = Inr Undefined"
| "js_get (Str s) k =
     (if k = ''length'' then Inr (Num (int (length s)))
      else case find (\<lambda>i. string_of_nat i = k) [0..<length s] of
             None \<Rightarrow> Inr Undefined
           | Some i \<Rightarrow> Inr (Str [s ! i]))"
| "js_get (Arr xs) k =
     (if k = ''length'' then Inr (Num (int (length xs)))
      else case find (\<lambda>i. string_of_nat i = k) [0..<length xs] of
             None \<Rightarrow> Inr Undefined
           | Some i \<Rightarrow> Inr (xs ! i))"
| "js_get (Obj ps) k = Inr (obj_get ps k)"

text \<open>\<^verbatim>\<open>names[0]\<close>: \<^verbatim>\<open>undefined\<close> (here \<open>None\<close>) on an empty array.\<close>

definition first_name :: "string list \<Rightarrow> string option" where
  "first_name names = (case names of [] \<Rightarrow> None | k # _ \<Rightarrow> Some k)"

text \<open>The property name that \<^verbatim>\<open>v[txHash]\<close> reads: \<^verbatim>\<open>undefined\<close> becomes the name \<^verbatim>\<open>"undefined"\<close>.\<close>

definition property_key :: "string option \<Rightarrow> string" where
  "property_key txHash = (case txHash of None \<Rightarrow> ''undefined'' | Some k \<Rightarrow> k)"

text \<open>
  \<^verbatim>\<open>e.data\<close> for a caught \<open>e\<close>. The runtime's and the adapter's own \<^verbatim>\<open>Error\<close> objects have
  no \<^verbatim>\<open>data\<close> property.
\<close>

fun error_data :: "js_error \<Rightarrow> js_error + jsval" where
  "error_data (Thrown v) = js_get v ''data''"
| "error_data TypeError = Inr Undefined"
| "error_data (AddressMismatch expectedFrom from) = Inr Undefined"

subsection \<open>Strings\<close>

definition startsWith :: "string \<Rightarrow> string \<Rightarrow> bool" where
  "startsWith s p = (take (length p) s = p)"

text \<open>\<^verbatim>\<open>s.slice(n)\<close> for \<open>n \<ge> 0\<close> and \<^verbatim>\<open>s.slice(-n)\<close>: the whole string when it is shorter than \<open>n\<close>.\<close>

definition slice_from :: "nat \<Rightarrow> string \<Rightarrow> string" where
  "slice_from n s = drop n s"

definition slice_last :: "nat \<Rightarrow> string \<Rightarrow> string" where
  "slice_last n s = drop (length s - n) s"

section \<open>Results, and what is dispatched\<close>

text \<open>
  A synchronous step returns a value or throws. An asynchronous method resolves or
  rejects, and on the way hands requests to the provider, the signer or the contract
  proxy; the model returns the outcome together with the requests handed over, in order.
\<close>

datatype event =
    ProviderSend string "jsval list"
  | SignerSendTransaction jsval
  | ContractFunction string "jsval list"
  | ContractEstimate string "jsval list"

type_synonym 'a io = "(js_error + 'a) \<times> event list"

definition bind_r :: "js_error + 'a \<Rightarrow> ('a \<Rightarrow> js_error + 'b) \<Rightarrow> js_error + 'b" where
  "bind_r m f = (case m of Inl e \<Rightarrow> Inl e | Inr x \<Rightarrow> f x)"

definition sync :: "js_error + 'a \<Rightarrow> 'a io" where
  "sync r = (r, [])"

definition dispatch :: "event \<Rightarrow> js_error + 'a \<Rightarrow> 'a io" where
  "dispatch ev r = (r, [ev])"

definition bind_io :: "'a io \<Rightarrow> ('a \<Rightarrow> 'b io) \<Rightarrow> 'b io" where
  "bind_io m f =
     (case m of
        (Inl e, t) \<Rightarrow> (Inl e, t)
      | (Inr x, t) \<Rightarrow> (case f x of (r, t') \<Rightarrow> (r, t @ t')))"

text \<open>A submission is a request that can put a transaction on the chain.\<close>

fun is_submission :: "event \<Rightarrow> bool" where
  "is_submission (SignerSendTransaction tx) = True"
| "is_submission (ContractFunction m args) = True"
| "is_submission (ProviderSend m args) = False"
| "is_submission (ContractEstimate m args) = False"

section \<open>What the adapter is given\<close>

text \<open>
  The constructor takes the \<^verbatim>\<open>ethers\<close> library and a \<^verbatim>\<open>signer\<close>; the module imports
  \<^verbatim>\<open>normalizeGasLimit\<close> and \<^verbatim>\<open>formatCallTx\<close> from \<^verbatim>\<open>../utils/transactions\<close>. All of them
  are parameters here, each a function that returns or throws. Each method below calls
  each of them at most once, so a function of the arguments loses nothing.
\<close>

record EthersAdapter =
  ethers_utils_getAddress :: "jsval \<Rightarrow> js_error + string"
  ethers_utils_keccak256 :: "string \<Rightarrow> js_error + string"
  ethers_utils_solidityKeccak256 :: "string list \<Rightarrow> string list \<Rightarrow> js_error + string"
  signer_getAddress :: "js_error + string"
  signer_sendTransaction :: "jsval \<Rightarrow> js_error + jsval"
  signer_provider_send :: "string \<Rightarrow> jsval list \<Rightarrow> js_error + jsval"
  normalizeGasLimit :: "obj \<Rightarrow> js_error + obj"
  formatCallTx :: "obj \<Rightarrow> js_error + jsval"

text \<open>
  \<^verbatim>\<open>contract.interface.functions[methodName]\<close>: the declared output types and the codec of
  one method of the Abi.
\<close>

record abi_function =
  outputs :: "string list"
  fn_encode :: "jsval list \<Rightarrow> js_error + string"
  fn_decode :: "jsval \<Rightarrow> js_error + jsval list"

text \<open>The value \<^verbatim>\<open>contract.estimate[methodName](...)\<close> resolves with: it has a \<^verbatim>\<open>toNumber()\<close>.\<close>

datatype bignumber = BigNumber (toNumber: "js_error + int")

text \<open>The wrapped \<^verbatim>\<open>ethers.Contract\<close>; a method the Abi lacks is \<open>None\<close> (\<^verbatim>\<open>undefined\<close>).\<close>

record ethers_contract =
  contract_address :: string
  interface_functions :: "string \<Rightarrow> abi_function option"
  contract_functions :: "string \<Rightarrow> (jsval list \<Rightarrow> js_error + jsval) option"
  contract_estimate :: "string \<Rightarrow> (jsval list \<Rightarrow> js_error + bignumber) option"

section \<open>EthersContractAdapter\<close>

text \<open>\<^verbatim>\<open>get address(): Address { return this.contract.address; }\<close>\<close>

definition address :: "ethers_contract \<Rightarrow> string" where
  "address C = contract_address C"

text \<open>
  \<^verbatim>\<open>encode(methodName, params) { return this.contract.interface.functions[methodName].encode(params); }\<close>
\<close>

definition encode :: "ethers_contract \<Rightarrow> string \<Rightarrow> jsval list \<Rightarrow> js_error + string" where
  "encode C methodName params =
     (case interface_functions C methodName of
        None \<Rightarrow> Inl TypeError
      | Some f \<Rightarrow> fn_encode f params)"

text \<open>\<^verbatim>\<open>this.contract.interface.functions[methodName].decode(resHex)\<close>\<close>

definition decode :: "ethers_contract \<Rightarrow> string \<Rightarrow> jsval \<Rightarrow> js_error + jsval list" where
  "decode C methodName resHex =
     (case interface_functions C methodName of
        None \<Rightarrow> Inl TypeError
      | Some f \<Rightarrow> fn_decode f resHex)"

section \<open>EthersAdapter\<close>

text \<open>\<^verbatim>\<open>providerSend(method, params) { return this.signer.provider.send(method, params); }\<close>\<close>

definition providerSend :: "EthersAdapter \<Rightarrow> string \<Rightarrow> jsval list \<Rightarrow> jsval io" where
  "providerSend A method params =
     dispatch (ProviderSend method params) (signer_provider_send A method params)"

text \<open>\<^verbatim>\<open>async getAccount() { return this.signer.getAddress(); }\<close>\<close>

definition getAccount :: "EthersAdapter \<Rightarrow> js_error + string" where
  "getAccount A = signer_getAddress A"

text \<open>\<^verbatim>\<open>keccak256(data) { return this.ethers.utils.keccak256(data); }\<close>\<close>

definition keccak256 :: "EthersAdapter \<Rightarrow> string \<Rightarrow> js_error + string" where
  "keccak256 A data = ethers_utils_keccak256 A data"

text \<open>
  \<^verbatim>\<open>
  calcCreate2Address(deployer, salt, initCode) {
    return this.ethers.utils.getAddress(
      this.ethers.utils.solidityKeccak256(['bytes', 'address', 'bytes32', 'bytes32'], [
        '0xff', deployer, salt, this.keccak256(initCode),
      ]).slice(-40),
    );
  }
  \<close>
\<close>

definition calcCreate2Address ::
  "EthersAdapter \<Rightarrow> string \<Rightarrow> string \<Rightarrow> string \<Rightarrow> js_error + string" where
  "calcCreate2Address A deployer salt initCode =
     bind_r (keccak256 A initCode) (\<lambda>codeHash.
     bind_r (ethers_utils_solidityKeccak256 A
               [''bytes'', ''address'', ''bytes32'', ''bytes32'']
               [''0xff'', deployer, salt, codeHash]) (\<lambda>digest.
     ethers_utils_getAddress A (Str (slice_last 40 digest))))"

text \<open>
  \<^verbatim>\<open>
  ethCall(tx, block) {
    return this.providerSend('eth_call', [formatCallTx(tx), block]);
  }
  \<close>
\<close>

definition ethCall :: "EthersAdapter \<Rightarrow> obj \<Rightarrow> jsval \<Rightarrow> jsval io" where
  "ethCall A tx block =
     bind_io (sync (formatCallTx A tx)) (\<lambda>callTx.
     providerSend A ''eth_call'' [callTx, block])"

text \<open>
  \<^verbatim>\<open>
  async getCallRevertData(tx, block) {
    try {
      return await this.ethCall(tx, block);
    } catch (e) {
      if (typeof e.data === 'string' && e.data.startsWith('Reverted 0x')) {
        return e.data.slice(9);
      }
      const txHash = Object.getOwnPropertyNames(e.data).filter((k) => k.startsWith('0x'))[0];
      return e.data[txHash].return;
    }
  }
  \<close>
  The two statements that handle the Ganache format, the \<^verbatim>\<open>catch\<close> block, and the method.
\<close>

definition ganacheRevertData :: "jsval \<Rightarrow> js_error + jsval" where
  "ganacheRevertData data =
     bind_r (getOwnPropertyNames data) (\<lambda>names.
     let txHash = first_name (filter (\<lambda>k. startsWith k ''0x'') names) in
     bind_r (js_get data (property_key txHash)) (\<lambda>entry.
     js_get entry ''return''))"

definition revertDataOfError :: "js_error \<Rightarrow> js_error + jsval" where
  "revertDataOfError e =
     bind_r (error_data e) (\<lambda>data.
       case data of
         Str s \<Rightarrow>
           if startsWith s ''Reverted 0x'' then Inr (Str (slice_from 9 s))
           else ganacheRevertData data
       | _ \<Rightarrow> ganacheRevertData data)"

definition getCallRevertData :: "EthersAdapter \<Rightarrow> obj \<Rightarrow> jsval \<Rightarrow> jsval io" where
  "getCallRevertData A tx block =
     (case ethCall A tx block of
        (Inr resHex, t) \<Rightarrow> (Inr resHex, t)
      | (Inl e, t) \<Rightarrow> (revertDataOfError e, t))"

text \<open>
  \<^verbatim>\<open>
  async checkFromAddress(from) {
    const { getAddress } = this.ethers.utils;
    const expectedFrom = await this.getAccount();
    if (getAddress(from) !== expectedFrom) {
      throw new Error(`want from ${expectedFrom} but got from ${from}`);
    }
  }
  \<close>
  It asks the signer for its address and dispatches nothing.
\<close>

definition checkFromAddress :: "EthersAdapter \<Rightarrow> jsval \<Rightarrow> js_error + unit" where
  "checkFromAddress A from =
     bind_r (getAccount A) (\<lambda>expectedFrom.
     bind_r (ethers_utils_getAddress A from) (\<lambda>normalized.
     if normalized \<noteq> expectedFrom then Inl (AddressMismatch expectedFrom from)
     else Inr ()))"

text \<open>\<^verbatim>\<open>return { transactionResponse, hash: transactionResponse.hash };\<close>\<close>

definition transactionResult :: "jsval \<Rightarrow> js_error + jsval" where
  "transactionResult transactionResponse =
     bind_r (js_get transactionResponse ''hash'') (\<lambda>hash.
     Inr (Obj [(''transactionResponse'', transactionResponse), (''hash'', hash)]))"

text \<open>
  \<^verbatim>\<open>
  async ethSendTransaction(tx) {
    const { from, gas, ...sendTx } = normalizeGasLimit(tx);
    await this.checkFromAddress(from);
    const transactionResponse = await this.signer.sendTransaction({ gasLimit: gas, ...sendTx });
    return { transactionResponse, hash: transactionResponse.hash };
  }
  \<close>
\<close>

definition ethSendTransaction :: "EthersAdapter \<Rightarrow> obj \<Rightarrow> jsval io" where
  "ethSendTransaction A tx =
     bind_io (sync (normalizeGasLimit A tx)) (\<lambda>normalized.
     let from = obj_get normalized ''from'';
         gas = obj_get normalized ''gas'';
         sendTx = rest_without [''from'', ''gas''] normalized in
     bind_io (sync (checkFromAddress A from)) (\<lambda>_.
     let request = Obj (spread [(''gasLimit'', gas)] sendTx) in
     bind_io (dispatch (SignerSendTransaction request) (signer_sendTransaction A request))
       (\<lambda>transactionResponse.
     sync (transactionResult transactionResponse))))"

section \<open>EthersAdapter.getSendOptions\<close>

text \<open>
  \<^verbatim>\<open>
  getSendOptions(ownerAccount: Address, options?: CallOptions): SendOptions {
    return { from: ownerAccount, ...options };
  }
  \<close>
\<close>

definition getSendOptions :: "string \<Rightarrow> obj option \<Rightarrow> obj" where
  "getSendOptions ownerAccount options = spread_opt [(''from'', Str ownerAccount)] options"

section \<open>EthersContractAdapter: call, send, estimateGas\<close>

text \<open>
  \<^verbatim>\<open>
  async call(methodName, params, options?) {
    const data = this.encode(methodName, params);
    const resHex = await this.ethersAdapter.ethCall({ ...options, to: this.address, data }, 'latest');
    const rets = this.contract.interface.functions[methodName].decode(resHex);
    if (rets.length === 1)
      return rets[0];
    return rets;
  }
  \<close>
\<close>

definition call ::
  "EthersAdapter \<Rightarrow> ethers_contract \<Rightarrow> string \<Rightarrow> jsval list \<Rightarrow> obj option \<Rightarrow> jsval io" where
  "call A C methodName params options =
     bind_io (sync (encode C methodName params)) (\<lambda>data.
     bind_io (ethCall A
                (obj_set ''data'' (Str data)
                  (obj_set ''to'' (Str (address C)) (spread_opt [] options)))
                (Str ''latest'')) (\<lambda>resHex.
     bind_io (sync (decode C methodName resHex)) (\<lambda>rets.
     sync (Inr (if length rets = 1 then rets ! 0 else Arr rets)))))"

text \<open>\<^verbatim>\<open>this.contract.functions[methodName](...args)\<close>; calling \<^verbatim>\<open>undefined\<close> is a \<^verbatim>\<open>TypeError\<close>.\<close>

definition contractFunction :: "ethers_contract \<Rightarrow> string \<Rightarrow> jsval list \<Rightarrow> jsval io" where
  "contractFunction C methodName args =
     (case contract_functions C methodName of
        None \<Rightarrow> sync (Inl TypeError)
      | Some f \<Rightarrow> dispatch (ContractFunction methodName args) (f args))"

text \<open>\<^verbatim>\<open>this.contract.estimate[methodName](...args)\<close>\<close>

definition contractEstimate :: "ethers_contract \<Rightarrow> string \<Rightarrow> jsval list \<Rightarrow> bignumber io" where
  "contractEstimate C methodName args =
     (case contract_estimate C methodName of
        None \<Rightarrow> sync (Inl TypeError)
      | Some f \<Rightarrow> dispatch (ContractEstimate methodName args) (f args))"

text \<open>
  \<^verbatim>\<open>
  async send(methodName, params, options?) {
    let transactionResponse;
    if (options != null) {
      const { from, gas, ...sendOptions } = normalizeGasLimit(options);
      await this.ethersAdapter.checkFromAddress(from);
      transactionResponse = await this.contract.functions[methodName](
        ...params, { gasLimit: gas, ...sendOptions });
    } else {
      transactionResponse = await this.contract.functions[methodName](...params);
    }
    return { transactionResponse, hash: transactionResponse.hash };
  }
  \<close>
\<close>

definition send ::
  "EthersAdapter \<Rightarrow> ethers_contract \<Rightarrow> string \<Rightarrow> jsval list \<Rightarrow> obj option \<Rightarrow> jsval io" where
  "send A C methodName params options =
     bind_io
       (case options of
          Some opts \<Rightarrow>
            bind_io (sync (normalizeGasLimit A opts)) (\<lambda>normalized.
            let from = obj_get normalized ''from'';
                gas = obj_get normalized ''gas'';
                sendOptions = rest_without [''from'', ''gas''] normalized in
            bind_io (sync (checkFromAddress A from)) (\<lambda>_.
            contractFunction C methodName
              (params @ [Obj (spread [(''gasLimit'', gas)] sendOptions)])))
        | None \<Rightarrow> contractFunction C methodName params)
       (\<lambda>transactionResponse. sync (transactionResult transactionResponse))"

text \<open>
  \<^verbatim>\<open>
  async estimateGas(methodName, params, options?) {
    if (!options) {
      return (await this.contract.estimate[methodName](...params)).toNumber();
    } else {
      const { gas, ...callOptions } = normalizeGasLimit(options);
      return (await this.contract.estimate[methodName](
        ...params, { gasLimit: gas, ...callOptions })).toNumber();
    }
  }
  \<close>
\<close>

definition estimateGas ::
  "EthersAdapter \<Rightarrow> ethers_contract \<Rightarrow> string \<Rightarrow> jsval list \<Rightarrow> obj option \<Rightarrow> int io" where
  "estimateGas A C methodName params options =
     (case options of
        None \<Rightarrow>
          bind_io (contractEstimate C methodName params) (\<lambda>estimate.
          sync (toNumber estimate))
      | Some opts \<Rightarrow>
          bind_io (sync (normalizeGasLimit A opts)) (\<lambda>normalized.
          let gas = obj_get normalized ''gas'';
              callOptions = rest_without [''gas''] normalized in
          bind_io (contractEstimate C methodName
                     (params @ [Obj (spread [(''gasLimit'', gas)] callOptions)])) (\<lambda>estimate.
          sync (toNumber estimate))))"

section \<open>Bytes and their hexadecimal spelling\<close>

text \<open>
  The library's digests are strings: \<^verbatim>\<open>0x\<close> and two lower-case digits for each byte.
  These definitions say which bytes such a string spells.
\<close>

definition hex_digit :: "nat \<Rightarrow> char" where
  "hex_digit n = ''0123456789abcdef'' ! n"

definition hex_byte :: "8 word \<Rightarrow> string" where
  "hex_byte b = [hex_digit (unat b div 16), hex_digit (unat b mod 16)]"

definition hex_of :: "8 word list \<Rightarrow> string" where
  "hex_of bs = concat (map hex_byte bs)"

definition hexlify :: "8 word list \<Rightarrow> string" where
  "hexlify bs = ''0x'' @ hex_of bs"

section \<open>A sample adapter and a sample contract\<close>

text \<open>
  Concrete values for the examples below: a signer whose account is
  \<^verbatim>\<open>0xAb5801a7D398351b8bE11C439e05C5B3259aeC9B\<close>, a gas normalizer and a call formatter
  that change nothing, and a provider that answers every request with the given outcome.
  The sample \<^verbatim>\<open>getAddress\<close> follows the library's: it accepts 40 hexadecimal digits with
  or without \<^verbatim>\<open>0x\<close>, returns the checksum spelling, and throws on a spelling that mixes
  upper and lower case and is not the checksum spelling. The checksum spelling needs
  Keccak-256; the sample looks it up in a table of the three addresses the examples use
  and knows no other address.
\<close>

definition to_lower :: "char \<Rightarrow> char" where
  "to_lower c = (case map_of (zip ''ABCDEF'' ''abcdef'') c of None \<Rightarrow> c | Some d \<Rightarrow> d)"

definition sample_account :: string where
  "sample_account = ''0xAb5801a7D398351b8bE11C439e05C5B3259aeC9B''"

definition other_account :: string where
  "other_account = ''0x1f9840a85d5aF5bf1D1762F925BDADdC4201F984''"

definition create2_sample_address :: string where
  "create2_sample_address = ''0x0D0E0f101112131415161718191A1b1C1d1e1f20''"

definition checksum_table :: "(string \<times> string) list" where
  "checksum_table =
     [(''0xab5801a7d398351b8be11c439e05c5b3259aec9b'', sample_account),
      (''0x1f9840a85d5af5bf1d1762f925bdaddc4201f984'', other_account),
      (''0x0d0e0f101112131415161718191a1b1c1d1e1f20'', create2_sample_address)]"

definition is_hex :: "char \<Rightarrow> bool" where
  "is_hex c = (c \<in> set ''0123456789abcdefABCDEF'')"

definition sample_getAddress :: "jsval \<Rightarrow> js_error + string" where
  "sample_getAddress v =
     (case v of
        Str s \<Rightarrow>
          if (length s = 42 \<and> take 2 s = ''0x'' \<and> list_all is_hex (drop 2 s))
             \<or> (length s = 40 \<and> list_all is_hex s)
          then
            (let a = (if take 2 s = ''0x'' then s else ''0x'' @ s) in
             case map_of checksum_table (map to_lower a) of
               None \<Rightarrow> Inl (Thrown (Str ''invalid address''))
             | Some result \<Rightarrow>
                 if list_ex (\<lambda>c. c \<in> set ''ABCDEF'') a \<and> list_ex (\<lambda>c. c \<in> set ''abcdef'') a
                    \<and> result \<noteq> a
                 then Inl (Thrown (Str ''bad address checksum''))
                 else Inr result)
          else Inl (Thrown (Str ''invalid address''))
      | _ \<Rightarrow> Inl (Thrown (Str ''invalid address'')))"

definition sample_digest :: "8 word list" where
  "sample_digest = map of_nat [1..<33]"

definition sample_adapter :: "js_error + jsval \<Rightarrow> EthersAdapter" where
  "sample_adapter response =
     \<lparr> ethers_utils_getAddress = sample_getAddress,
       ethers_utils_keccak256 = (\<lambda>data. Inr (hexlify (replicate 32 (of_nat (length data))))),
       ethers_utils_solidityKeccak256 = (\<lambda>types values. Inr (hexlify sample_digest)),
       signer_getAddress = Inr sample_account,
       signer_sendTransaction = (\<lambda>tx. Inr (Obj [(''hash'', Str ''0x01'')])),
       signer_provider_send = (\<lambda>method params. response),
       normalizeGasLimit = (\<lambda>options. Inr options),
       formatCallTx = (\<lambda>tx. Inr (Obj tx)) \<rparr>"

definition sample_contract :: ethers_contract where
  "sample_contract =
     \<lparr> contract_address = other_account,
       interface_functions = (\<lambda>m.
         if m = ''balanceOf'' then
           Some \<lparr> outputs = [''uint256''],
                  fn_encode = (\<lambda>params. Inr ''0x70a08231''),
                  fn_decode = (\<lambda>resHex. Inr [Num 7]) \<rparr>
         else if m = ''getReserves'' then
           Some \<lparr> outputs = [''uint112'', ''uint112''],
                  fn_encode = (\<lambda>params. Inr ''0x0902f1ac''),
                  fn_decode = (\<lambda>resHex. Inr [Num 1, Num 2]) \<rparr>
         else None),
       contract_functions = (\<lambda>m.
         if m = ''transfer'' then Some (\<lambda>args. Inr (Obj [(''hash'', Str ''0x02'')]))
         else None),
       contract_estimate = (\<lambda>m.
         if m = ''transfer'' then Some (\<lambda>args. Inr (BigNumber (Inr 21000)))
         else None) \<rparr>"

text \<open>
  A call request, a revert payload, the failed call as three kinds of node report it, an
  error whose \<^verbatim>\<open>data\<close> has no hash key, and two option bags: one naming another account
  as sender, one naming the signer's own.
\<close>

definition revert_payload :: string where
  "revert_payload = ''0x08c379a0''"

definition sample_tx :: obj where
  "sample_tx = [(''to'', Str other_account), (''data'', Str ''0x70a08231'')]"

definition openethereum_error :: js_error where
  "openethereum_error =
     Thrown (Obj [(''message'', Str ''VM execution error.''),
                  (''data'', Str (''Reverted '' @ revert_payload))])"

definition ganache_error :: js_error where
  "ganache_error =
     Thrown (Obj [(''message'', Str ''VM Exception while processing transaction: revert''),
                  (''data'', Obj [(''stack'', Str ''RuntimeError''),
                                  (''0x5c504ed4'', Obj [(''error'', Str ''revert''),
                                                        (''program_counter'', Num 91),
                                                        (''return'', Str revert_payload)]),
                                  (''name'', Str ''RuntimeError'')])])"

definition ganache_error_without_return :: js_error where
  "ganache_error_without_return =
     Thrown (Obj [(''message'', Str ''VM Exception while processing transaction: out of gas''),
                  (''data'', Obj [(''0x5c504ed4'', Obj [(''error'', Str ''out of gas''),
                                                        (''program_counter'', Num 91)])])])"

definition error_without_hash :: js_error where
  "error_without_hash =
     Thrown (Obj [(''message'', Str ''header not found''),
                  (''data'', Obj [(''stack'', Str ''RuntimeError''),
                                  (''name'', Str ''RuntimeError'')])])"

definition sample_options :: obj where
  "sample_options = [(''from'', Str other_account), (''gas'', Num 50000), (''value'', Num 1)]"

definition own_options :: obj where
  "own_options = [(''from'', Str sample_account), (''gas'', Num 50000), (''value'', Num 1)]"

section \<open>The error shapes the specification names\<close>

text \<open>
  The specification recognises two shapes of a failed call's \<^verbatim>\<open>data\<close>: a string that
  begins with the sentinel, and a mapping that has an entry under a key beginning with
  \<^verbatim>\<open>0x\<close>, the entry carrying a \<^verbatim>\<open>return\<close> field. These predicates follow its words; the
  adapter does not use them.
\<close>

definition sentinel_shape :: "jsval \<Rightarrow> bool" where
  "sentinel_shape d = (case d of Str s \<Rightarrow> startsWith s ''Reverted 0x'' | _ \<Rightarrow> False)"

definition has_return_field :: "jsval \<Rightarrow> bool" where
  "has_return_field v = (case v of Obj entry \<Rightarrow> ''return'' \<in> set (map fst entry) | _ \<Rightarrow> False)"

definition hash_mapping_shape :: "jsval \<Rightarrow> bool" where
  "hash_mapping_shape d =
     (case d of
        Obj ps \<Rightarrow> list_ex (\<lambda>p. startsWith (fst p) ''0x'' \<and> has_return_field (snd p)) ps
      | _ \<Rightarrow> False)"

definition recognized_shape :: "jsval \<Rightarrow> bool" where
  "recognized_shape d = (sentinel_shape d \<or> hash_mapping_shape d)"

section \<open>The dispatched bag, as the specification describes it\<close>

text \<open>
  Key by key: \<^verbatim>\<open>gasLimit\<close> has the normalized \<^verbatim>\<open>gas\<close> value, \<^verbatim>\<open>gas\<close> and the
  removed keys are absent, every other key is as in the normalized bag.
\<close>

definition renamed_bag :: "string list \<Rightarrow> obj \<Rightarrow> string \<Rightarrow> jsval option" where
  "renamed_bag removed normalized k =
     (if k = ''gasLimit'' then Some (obj_get normalized ''gas'')
      else if k = ''gas'' \<or> k \<in> set removed then None
      else map_of normalized k)"

section \<open>Properties of objects\<close>

lemma map_of_obj_set: "map_of (obj_set k v ps) = (map_of ps)(k \<mapsto> v)"
  by (induction ps) (auto simp: fun_eq_iff)

lemma map_of_spread: "map_of (spread base ps) = map_of base ++ map_of (rev ps)"
proof (induction ps arbitrary: base)
  case Nil
  show ?case by simp
next
  case (Cons p ps)
  obtain k v where p: "p = (k, v)" by (cases p)
  show ?case
    unfolding p by (simp add: Cons.IH map_of_obj_set fun_eq_iff map_add_def split: option.splits)
qed

lemma map_of_rev_distinct:
  "distinct (map fst ps) \<Longrightarrow> map_of (rev ps) = map_of ps"
  by (rule map_of_inject_set [THEN iffD2]) (simp_all add: rev_map [symmetric])

lemma keys_obj_set: "fst ` set (obj_set k v ps) = insert k (fst ` set ps)"
  by (induction ps) force+

lemma distinct_obj_set: "distinct (map fst ps) \<Longrightarrow> distinct (map fst (obj_set k v ps))"
  by (induction ps) (auto simp: keys_obj_set)

lemma distinct_spread: "distinct (map fst base) \<Longrightarrow> distinct (map fst (spread base ps))"
  by (induction ps arbitrary: base) (auto simp: distinct_obj_set)

section \<open>Results and the call chain\<close>

lemma bind_io_Inl [simp]: "bind_io (Inl e, t) f = (Inl e, t)"
  by (simp add: bind_io_def)

lemma bind_io_Inr [simp]: "bind_io (Inr x, t) f = (fst (f x), t @ snd (f x))"
  by (simp add: bind_io_def split: prod.splits)

lemma bind_r_Inl [simp]: "bind_r (Inl e) f = Inl e"
  by (simp add: bind_r_def)

lemma bind_r_Inr [simp]: "bind_r (Inr x) f = f x"
  by (simp add: bind_r_def)

lemma length_hex_of: "length (hex_of bs) = 2 * length bs"
  by (induction bs) (simp_all add: hex_of_def hex_byte_def)

lemma drop_hex_of: "drop (2 * n) (hex_of bs) = hex_of (drop n bs)"
proof (induction bs arbitrary: n)
  case Nil
  show ?case by (simp add: hex_of_def)
next
  case (Cons b bs)
  show ?case
  proof (cases n)
    case 0
    then show ?thesis by simp
  next
    case (Suc m)
    have "hex_of (b # bs) = hex_byte b @ hex_of bs" by (simp add: hex_of_def)
    moreover have "length (hex_byte b) = 2" by (simp add: hex_byte_def)
    ultimately show ?thesis using Cons.IH [of m] Suc by simp
  qed
qed

lemma slice_last_digest:
  assumes "length digest = 32"
  shows "slice_last 40 (hexlify digest) = hex_of (drop 12 digest)"
proof -
  have "length (hexlify digest) = 66"
    using assms by (simp add: hexlify_def length_hex_of)
  then have "slice_last 40 (hexlify digest) = drop 26 (hexlify digest)"
    by (simp add: slice_last_def)
  also have "\<dots> = drop (2 * 12) (hex_of digest)"
    by (simp add: hexlify_def)
  also have "\<dots> = hex_of (drop 12 digest)"
    by (rule drop_hex_of)
  finally show ?thesis .
qed

lemma string_of_nat_digits: "set (string_of_nat n) \<subseteq> set ''0123456789''"
proof (induction n rule: string_of_nat.induct)
  case (1 n)
  have digit: "''0123456789'' ! m \<in> set ''0123456789''" if "m < 10" for m
    using that by (intro nth_mem) simp
  show ?case
  proof (cases "n < 10")
    case True
    then show ?thesis
      using digit [of n] by (subst string_of_nat.simps) simp
  next
    case False
    have "n mod 10 < 10" by simp
    then show ?thesis
      using False "1.IH" digit [of "n mod 10"] by (subst string_of_nat.simps) simp
  qed
qed

lemma string_of_nat_no_letter:
  assumes "c \<in> set s" and "c \<notin> set ''0123456789''"
  shows "string_of_nat n \<noteq> s"
  using assms string_of_nat_digits [of n] by auto

lemma index_name_not_hash: "\<not> startsWith (string_of_nat n) ''0x''"
proof
  assume hash: "startsWith (string_of_nat n) ''0x''"
  define k where "k = length ''0x''"
  have "take k (string_of_nat n) = ''0x''"
    using hash unfolding startsWith_def k_def .
  then have "CHR ''x'' \<in> set (take k (string_of_nat n))" by simp
  then have "CHR ''x'' \<in> set (string_of_nat n)" by (rule in_set_takeD)
  then show False using string_of_nat_digits [of n] by auto
qed

lemma length_name_not_hash: "\<not> startsWith ''length'' ''0x''"
  by (simp add: startsWith_def)

lemma index_names_no_hash:
  "filter (\<lambda>k. startsWith k ''0x'') (map string_of_nat [0..<n] @ [''length'']) = []"
  by (simp add: filter_empty_conv index_name_not_hash length_name_not_hash)

lemma index_names_no_undefined:
  "find (\<lambda>i. string_of_nat i = ''undefined'') [0..<n] = None"
  by (simp add: find_None_iff string_of_nat_no_letter [of "CHR ''u''"])

lemma revertDataOfError_no_names:
  assumes "error_data e = Inr d" and "getOwnPropertyNames d = Inr names"
    and "filter (\<lambda>k. startsWith k ''0x'') names = []"
    and "js_get d ''undefined'' = Inr Undefined"
    and "\<And>s. d = Str s \<Longrightarrow> \<not> startsWith s ''Reverted 0x''"
  shows "revertDataOfError e = Inl TypeError"
  using assms by (cases d) (simp_all add: revertDataOfError_def ganacheRevertData_def first_name_def property_key_def)

lemma sample_getAddress_lower:
  "sample_getAddress (Str ''0xab5801a7d398351b8be11c439e05c5b3259aec9b'') = Inr sample_account"
  by (simp add: sample_getAddress_def checksum_table_def is_hex_def to_lower_def
        sample_account_def)

lemma sample_getAddress_upper:
  "sample_getAddress (Str ''0xAB5801A7D398351B8BE11C439E05C5B3259AEC9B'') = Inr sample_account"
  by (simp add: sample_getAddress_def checksum_table_def is_hex_def to_lower_def
        sample_account_def)

lemma sample_getAddress_own:
  "sample_getAddress (Str sample_account) = Inr sample_account"
  by (simp add: sample_getAddress_def checksum_table_def is_hex_def to_lower_def
        sample_account_def)

lemma sample_getAddress_bad_checksum:
  "sample_getAddress (Str ''0xAB5801a7D398351b8bE11C439e05C5B3259aeC9B'')
     = Inl (Thrown (Str ''bad address checksum''))"
  by (simp add: sample_getAddress_def checksum_table_def is_hex_def to_lower_def
        sample_account_def)

lemma sample_getAddress_other:
  "sample_getAddress (Str other_account) = Inr other_account"
  by (simp add: sample_getAddress_def checksum_table_def is_hex_def to_lower_def
        sample_account_def other_account_def)

lemma sample_getAddress_create2:
  "sample_getAddress (Str ''0d0e0f101112131415161718191a1b1c1d1e1f20'') = Inr create2_sample_address"
  by (simp add: sample_getAddress_def checksum_table_def is_hex_def to_lower_def
        sample_account_def other_account_def create2_sample_address_def)

lemma checkFromAddress_Inr:
  "checkFromAddress A from = Inr () \<longleftrightarrow>
     (\<exists>account. signer_getAddress A = Inr account \<and> ethers_utils_getAddress A from = Inr account)"
  by (auto simp: checkFromAddress_def getAccount_def bind_r_def split: sum.splits)

lemma bind_io_sync_Inl [simp]: "bind_io (sync (Inl e)) f = (Inl e, [])"
  by (simp add: sync_def)

lemma bind_io_sync_Inr [simp]: "bind_io (sync (Inr x)) f = f x"
  by (simp add: sync_def)

lemma hex_of_sample: "hex_of (drop 12 sample_digest) = ''0d0e0f101112131415161718191a1b1c1d1e1f20''"
  by code_simp

lemma ethCall_sample:
  "ethCall (sample_adapter response) tx block = (response, [ProviderSend ''eth_call'' [Obj tx, block]])"
  by (cases response) (simp_all add: ethCall_def providerSend_def dispatch_def sample_adapter_def)

lemma snd_ethCall:
  "snd (ethCall A tx block) =
     (case formatCallTx A tx of Inl e \<Rightarrow> [] | Inr callTx \<Rightarrow> [ProviderSend ''eth_call'' [callTx, block]])"
  by (cases "formatCallTx A tx") (simp_all add: ethCall_def providerSend_def dispatch_def)

lemma snd_bind_io:
  "snd (bind_io m f) = (case fst m of Inl e \<Rightarrow> snd m | Inr x \<Rightarrow> snd m @ snd (f x))"
  by (cases m; cases "fst m") auto

lemma map_of_rest_without:
  "map_of (rest_without ks ps) k = (if k \<in> set ks then None else map_of ps k)"
  by (induction ps) (auto simp: rest_without_def)

lemma distinct_rest_without:
  "distinct (map fst ps) \<Longrightarrow> distinct (map fst (rest_without ks ps))"
  by (simp add: rest_without_def distinct_map_filter)

lemma map_of_request:
  assumes "distinct (map fst normalized)" and "''gasLimit'' \<notin> set (map fst normalized)"
  shows "map_of (spread [(''gasLimit'', obj_get normalized ''gas'')] (rest_without (''gas'' # removed) normalized))
         = renamed_bag removed normalized"
proof
  fix k
  let ?rest = "rest_without (''gas'' # removed) normalized"
  have d: "distinct (map fst ?rest)"
    using assms(1) by (rule distinct_rest_without)
  have none: "map_of normalized ''gasLimit'' = None"
    using assms(2) by (simp add: map_of_eq_None_iff)
  show "map_of (spread [(''gasLimit'', obj_get normalized ''gas'')] ?rest) k
          = renamed_bag removed normalized k"
    using none
    by (simp add: map_of_spread map_of_rev_distinct [OF d] map_of_rest_without renamed_bag_def
          map_add_def split: option.splits)
qed

lemma rest_without_commute:
  "rest_without [''from'', ''gas''] ps = rest_without (''gas'' # [''from'']) ps"
  by (auto simp: rest_without_def intro: filter_cong)

lemma estimateGas_None:
  "contract_estimate C methodName = Some g \<Longrightarrow>
     estimateGas A C methodName params None
       = (bind_r (g params) toNumber, [ContractEstimate methodName params])"
  by (cases "g params")
     (simp_all add: estimateGas_def contractEstimate_def dispatch_def sync_def)

lemma estimateGas_Some:
  "contract_estimate C methodName = Some g \<Longrightarrow> normalizeGasLimit A opts = Inr normalized \<Longrightarrow>
     estimateGas A C methodName params (Some opts)
       = (bind_r (g (params @ [Obj (spread [(''gasLimit'', obj_get normalized ''gas'')]
                                      (rest_without [''gas''] normalized))])) toNumber,
          [ContractEstimate methodName
             (params @ [Obj (spread [(''gasLimit'', obj_get normalized ''gas'')]
                               (rest_without [''gas''] normalized))])])"
  by (cases "g (params @ [Obj (spread [(''gasLimit'', obj_get normalized ''gas'')]
                                      (rest_without [''gas''] normalized))])")
     (simp_all add: estimateGas_def contractEstimate_def dispatch_def sync_def Let_def)

lemma snd_contractEstimate:
  "ev \<in> set (snd (contractEstimate C methodName args)) \<Longrightarrow> ev = ContractEstimate methodName args"
  by (cases "contract_estimate C methodName")
     (simp_all add: contractEstimate_def sync_def dispatch_def)

lemma snd_estimateGas:
  assumes "ev \<in> set (snd (estimateGas A C methodName params options))"
  shows "\<exists>args. ev = ContractEstimate methodName args"
proof (cases options)
  case None
  with assms have "ev \<in> set (snd (contractEstimate C methodName params))"
    by (simp add: estimateGas_def snd_bind_io sync_def split: sum.splits)
  then show ?thesis by (blast dest: snd_contractEstimate)
next
  case (Some opts)
  show ?thesis
  proof (cases "normalizeGasLimit A opts")
    case (Inl e)
    with assms Some show ?thesis by (simp add: estimateGas_def)
  next
    case (Inr normalized)
    with assms Some
    have "ev \<in> set (snd (contractEstimate C methodName
             (params @ [Obj (spread [(''gasLimit'', obj_get normalized ''gas'')]
                               (rest_without [''gas''] normalized))])))"
      by (simp add: estimateGas_def Let_def snd_bind_io sync_def split: sum.splits)
    then show ?thesis by (blast dest: snd_contractEstimate)
  qed
qed

lemma snd_ethSendTransaction:
  assumes "normalizeGasLimit A tx = Inr normalized"
  shows "snd (ethSendTransaction A tx) =
           (if checkFromAddress A (obj_get normalized ''from'') = Inr ()
            then [SignerSendTransaction
                    (Obj (spread [(''gasLimit'', obj_get normalized ''gas'')]
                            (rest_without [''from'', ''gas''] normalized)))]
            else [])"
  using assms
  by (cases "checkFromAddress A (obj_get normalized ''from'')")
     (simp_all add: ethSendTransaction_def Let_def dispatch_def sync_def snd_bind_io
        split: sum.splits)

lemma snd_send:
  assumes "normalizeGasLimit A opts = Inr normalized"
  shows "snd (send A C methodName params (Some opts)) =
           (if checkFromAddress A (obj_get normalized ''from'') = Inr ()
            then (case contract_functions C methodName of
                    None \<Rightarrow> []
                  | Some f \<Rightarrow>
                      [ContractFunction methodName
                         (params @ [Obj (spread [(''gasLimit'', obj_get normalized ''gas'')]
                                           (rest_without [''from'', ''gas''] normalized))])])
            else [])"
  using assms
  by (cases "checkFromAddress A (obj_get normalized ''from'')";
      cases "contract_functions C methodName")
     (simp_all add: send_def Let_def contractFunction_def dispatch_def sync_def snd_bind_io
        split: sum.splits)

lemma snd_estimateGas_Some:
  assumes "normalizeGasLimit A opts = Inr normalized"
  shows "snd (estimateGas A C methodName params (Some opts)) =
           (case contract_estimate C methodName of
              None \<Rightarrow> []
            | Some g \<Rightarrow>
                [ContractEstimate methodName
                   (params @ [Obj (spread [(''gasLimit'', obj_get normalized ''gas'')]
                                     (rest_without [''gas''] normalized))])])"
  using assms
  by (cases "contract_estimate C methodName")
     (simp_all add: estimateGas_def Let_def contractEstimate_def dispatch_def sync_def snd_bind_io
        split: sum.splits)

section \<open>Claims\<close>

text \<open>
  C1. \<open>calcCreate2Address\<close> returns the checksum-normalized last 20 bytes of
  \<^verbatim>\<open>keccak256(0xff ++ deployer ++ salt ++ keccak256(initCode))\<close>. The two hashes are the
  library's: \<open>codeHash\<close> is what its \<^verbatim>\<open>keccak256\<close> returns for the init code, and
  \<open>digest\<close> is the 32 bytes its \<^verbatim>\<open>solidityKeccak256\<close> returns for the tight packing of
  the byte \<^verbatim>\<open>0xff\<close>, the deployer as \<^verbatim>\<open>address\<close>, the salt as \<^verbatim>\<open>bytes32\<close> and
  \<open>codeHash\<close> as \<^verbatim>\<open>bytes32\<close>. The adapter cuts the last 40 characters of the digest's
  spelling, which spell its last 20 bytes, and hands them to \<^verbatim>\<open>getAddress\<close>. The result
  is a function of the library and the three arguments alone: the method reads no state
  and dispatches nothing, so two runs on the same inputs agree.
\<close>

theorem calcCreate2Address_scheme:
  assumes "ethers_utils_keccak256 A initCode = Inr codeHash"
    and "ethers_utils_solidityKeccak256 A [''bytes'', ''address'', ''bytes32'', ''bytes32'']
           [''0xff'', deployer, salt, codeHash] = Inr (hexlify digest)"
    and "length digest = 32"
  shows "calcCreate2Address A deployer salt initCode =
           ethers_utils_getAddress A (Str (hex_of (drop 12 digest)))"
  using assms by (simp add: calcCreate2Address_def keccak256_def slice_last_digest)

text \<open>On the sample adapter:\<close>

theorem calcCreate2Address_scheme_witness:
  "calcCreate2Address (sample_adapter (Inr Null)) other_account (hexlify (replicate 32 0)) ''0x''
     = Inr ''0x0D0E0f101112131415161718191A1b1C1d1e1f20''"
proof -
  let ?A = "sample_adapter (Inr Null)"
  have h1: "ethers_utils_keccak256 ?A ''0x'' = Inr (hexlify (replicate 32 2))"
    by (simp add: sample_adapter_def)
  have h2: "ethers_utils_solidityKeccak256 ?A [''bytes'', ''address'', ''bytes32'', ''bytes32'']
              [''0xff'', other_account, hexlify (replicate 32 0), hexlify (replicate 32 2)]
            = Inr (hexlify sample_digest)"
    by (simp add: sample_adapter_def)
  have h3: "length sample_digest = 32"
    by (simp add: sample_digest_def)
  have "ethers_utils_getAddress ?A (Str ''0d0e0f101112131415161718191a1b1c1d1e1f20'')
          = Inr ''0x0D0E0f101112131415161718191A1b1C1d1e1f20''"
    by (simp add: sample_adapter_def sample_getAddress_create2 create2_sample_address_def)
  then show ?thesis
    using calcCreate2Address_scheme [OF h1 h2 h3] by (simp add: hex_of_sample)
qed

text \<open>
  C2, as the code has it. When the call fails and the error's \<^verbatim>\<open>data\<close> is neither a
  string with the sentinel prefix nor an object with an own key that begins with \<^verbatim>\<open>0x\<close>
  (nor one named \<^verbatim>\<open>undefined\<close>), \<open>getCallRevertData\<close> rejects with a \<^verbatim>\<open>TypeError\<close>: absent
  \<^verbatim>\<open>data\<close>, \<^verbatim>\<open>null\<close>, a boolean, a number, any other string, an array and an object
  without a hash key all end so. The request to the provider is the only one made.
\<close>

theorem getCallRevertData_unrecognized:
  assumes "ethCall A tx block = (Inl e, t)"
    and "error_data e = Inr d"
    and "\<forall>s. d = Str s \<longrightarrow> \<not> startsWith s ''Reverted 0x''"
    and "\<forall>ps. d = Obj ps \<longrightarrow>
           (\<forall>k \<in> set (map fst ps). \<not> startsWith k ''0x'') \<and> ''undefined'' \<notin> set (map fst ps)"
  shows "getCallRevertData A tx block = (Inl TypeError, t)"
proof -
  have "revertDataOfError e = Inl TypeError"
  proof (cases d)
    case Undefined
    then show ?thesis using assms(2) by (simp add: revertDataOfError_def ganacheRevertData_def)
  next
    case Null
    then show ?thesis using assms(2) by (simp add: revertDataOfError_def ganacheRevertData_def)
  next
    case (Bool b)
    then show ?thesis using assms(2) by (intro revertDataOfError_no_names [of e d "[]"]) simp_all
  next
    case (Num n)
    then show ?thesis using assms(2) by (intro revertDataOfError_no_names [of e d "[]"]) simp_all
  next
    case (Str s)
    then show ?thesis
      using assms(3)
      by (intro revertDataOfError_no_names
            [OF assms(2) _ index_names_no_hash [of "length s"]])
         (simp_all add: index_names_no_undefined)
  next
    case (Arr xs)
    then show ?thesis
      by (intro revertDataOfError_no_names
            [OF assms(2) _ index_names_no_hash [of "length xs"]])
         (simp_all add: index_names_no_undefined)
  next
    case (Obj ps)
    with assms(4) have keys: "\<forall>k \<in> set (map fst ps). \<not> startsWith k ''0x''"
      and undef: "''undefined'' \<notin> set (map fst ps)" by simp_all
    from undef have "map_of ps ''undefined'' = None"
      by (simp add: map_of_eq_None_iff)
    then show ?thesis
      using Obj assms(2) keys
      by (intro revertDataOfError_no_names [of e d "map fst ps"])
         (simp_all add: obj_get_def filter_empty_conv)
  qed
  then show ?thesis using assms(1) by (simp add: getCallRevertData_def)
qed

text \<open>On the sample adapter:\<close>

theorem getCallRevertData_unrecognized_witness:
  "getCallRevertData (sample_adapter (Inl error_without_hash)) sample_tx (Str ''latest'')
     = (Inl TypeError, [ProviderSend ''eth_call'' [Obj sample_tx, Str ''latest'']])"
proof -
  let ?d = "Obj [(''stack'', Str ''RuntimeError''), (''name'', Str ''RuntimeError'')]"
  have h2: "error_data error_without_hash = Inr ?d"
    by (simp add: error_without_hash_def obj_get_def)
  have h3: "\<forall>s. ?d = Str s \<longrightarrow> \<not> startsWith s ''Reverted 0x''"
    by simp
  have h4: "\<forall>ps. ?d = Obj ps \<longrightarrow>
           (\<forall>k \<in> set (map fst ps). \<not> startsWith k ''0x'') \<and> ''undefined'' \<notin> set (map fst ps)"
    by (simp add: startsWith_def)
  show ?thesis
    by (rule getCallRevertData_unrecognized [OF ethCall_sample h2 h3 h4])
qed

text \<open>
  The adapter does not look for the \<^verbatim>\<open>return\<close> field before reading it. A failed call
  whose \<^verbatim>\<open>data\<close> has a hash key but whose entry has no \<^verbatim>\<open>return\<close> is none of the shapes
  the specification recognises, and \<open>getCallRevertData\<close> resolves with \<^verbatim>\<open>undefined\<close>.
\<close>

theorem getCallRevertData_swallows_counterexample:
  "error_data ganache_error_without_return
     = Inr (Obj [(''0x5c504ed4'', Obj [(''error'', Str ''out of gas''), (''program_counter'', Num 91)])])
   \<and> \<not> recognized_shape
         (Obj [(''0x5c504ed4'', Obj [(''error'', Str ''out of gas''), (''program_counter'', Num 91)])])
   \<and> getCallRevertData (sample_adapter (Inl ganache_error_without_return)) sample_tx (Str ''latest'')
       = (Inr Undefined, [ProviderSend ''eth_call'' [Obj sample_tx, Str ''latest'']])"
  by (simp add: getCallRevertData_def ethCall_sample revertDataOfError_def ganacheRevertData_def
        ganache_error_without_return_def obj_get_def recognized_shape_def sentinel_shape_def
        hash_mapping_shape_def has_return_field_def startsWith_def first_name_def
        property_key_def)

text \<open>
  C3. The fallback chain of \<open>getCallRevertData\<close>, in order. A call that succeeds gives
  its return data. A failed call whose \<^verbatim>\<open>data\<close> is a string beginning with
  \<^verbatim>\<open>Reverted 0x\<close> gives the string without its first nine characters, the sentinel
  \<^verbatim>\<open>Reverted\<close> and the blank: what is left is the revert hex with its \<^verbatim>\<open>0x\<close>. A failed
  call whose \<^verbatim>\<open>data\<close> is an object gives the \<^verbatim>\<open>return\<close> field of the entry under the first
  key that begins with \<^verbatim>\<open>0x\<close>. So one payload, reported in any of the three ways, comes
  back the same.
\<close>

theorem getCallRevertData_fallback_chain:
  "(ethCall A tx block = (Inr resHex, t) \<longrightarrow>
      getCallRevertData A tx block = (Inr resHex, t))
   \<and> (ethCall A tx block = (Inl e, t) \<and> error_data e = Inr (Str s) \<and> startsWith s ''Reverted 0x'' \<longrightarrow>
      getCallRevertData A tx block = (Inr (Str (drop 9 s)), t))
   \<and> (ethCall A tx block = (Inl e, t) \<and> error_data e = Inr (Str (''Reverted '' @ payload))
        \<and> startsWith payload ''0x'' \<longrightarrow>
      getCallRevertData A tx block = (Inr (Str payload), t))
   \<and> (ethCall A tx block = (Inl e, t) \<and> error_data e = Inr (Obj ps)
        \<and> filter (\<lambda>k. startsWith k ''0x'') (map fst ps) = txHash # others
        \<and> map_of ps txHash = Some (Obj entry) \<longrightarrow>
      getCallRevertData A tx block = (Inr (obj_get entry ''return''), t))"
  by (auto simp: getCallRevertData_def revertDataOfError_def ganacheRevertData_def slice_from_def first_name_def
        property_key_def obj_get_def startsWith_def)

text \<open>On the sample adapter:\<close>

theorem getCallRevertData_fallback_chain_witness:
  "getCallRevertData (sample_adapter (Inr (Str revert_payload))) sample_tx (Str ''latest'')
     = (Inr (Str revert_payload), [ProviderSend ''eth_call'' [Obj sample_tx, Str ''latest'']])
   \<and> getCallRevertData (sample_adapter (Inl openethereum_error)) sample_tx (Str ''latest'')
     = (Inr (Str revert_payload), [ProviderSend ''eth_call'' [Obj sample_tx, Str ''latest'']])
   \<and> getCallRevertData (sample_adapter (Inl ganache_error)) sample_tx (Str ''latest'')
     = (Inr (Str revert_payload), [ProviderSend ''eth_call'' [Obj sample_tx, Str ''latest'']])"
proof -
  let ?t = "[ProviderSend ''eth_call'' [Obj sample_tx, Str ''latest'']]"
  let ?entry = "[(''error'', Str ''revert''), (''program_counter'', Num 91),
                 (''return'', Str revert_payload)]"
  let ?ps = "[(''stack'', Str ''RuntimeError''), (''0x5c504ed4'', Obj ?entry),
              (''name'', Str ''RuntimeError'')]"
  have o: "error_data openethereum_error = Inr (Str (''Reverted '' @ revert_payload))"
    by (simp add: openethereum_error_def obj_get_def)
  have p: "startsWith revert_payload ''0x''"
    by (simp add: revert_payload_def startsWith_def)
  have g: "error_data ganache_error = Inr (Obj ?ps)"
    by (simp add: ganache_error_def obj_get_def)
  have k: "filter (\<lambda>k. startsWith k ''0x'') (map fst ?ps) = ''0x5c504ed4'' # []"
    by (simp add: startsWith_def)
  have m: "map_of ?ps ''0x5c504ed4'' = Some (Obj ?entry)"
    by simp
  have r: "obj_get ?entry ''return'' = Str revert_payload"
    by (simp add: obj_get_def)
  show ?thesis
    using getCallRevertData_fallback_chain
            [of "sample_adapter (Inr (Str revert_payload))" sample_tx "Str ''latest''"
                "Str revert_payload" ?t]
          getCallRevertData_fallback_chain
            [of "sample_adapter (Inl openethereum_error)" sample_tx "Str ''latest''" _ ?t
                openethereum_error _ revert_payload]
          getCallRevertData_fallback_chain
            [of "sample_adapter (Inl ganache_error)" sample_tx "Str ''latest''" _ ?t
                ganache_error _ _ ?ps "''0x5c504ed4''" "[]" ?entry]
          o p g k m r
    by (simp add: ethCall_sample)
qed

text \<open>
  C4, as the code has it. \<open>checkFromAddress\<close> compares what the library's
  \<^verbatim>\<open>getAddress\<close> returns for \<open>from\<close> with the signer's account. When \<^verbatim>\<open>getAddress\<close>
  returns \<open>normalized\<close>, the check fails with the mismatch error exactly when
  \<open>normalized\<close> differs from the account and returns normally otherwise. When
  \<^verbatim>\<open>getAddress\<close> throws, or the signer rejects, that error is the outcome: neither
  success nor the mismatch error. The check succeeds only when \<^verbatim>\<open>getAddress\<close> returns
  for \<open>from\<close> and returns the account; so a \<open>from\<close> in another letter case passes
  exactly when the library accepts that spelling and normalizes it to the account.
\<close>

theorem checkFromAddress_iff:
  "(signer_getAddress A = Inr account \<and> ethers_utils_getAddress A from = Inr normalized \<longrightarrow>
      (checkFromAddress A from = Inl (AddressMismatch account from)) = (normalized \<noteq> account)
      \<and> (checkFromAddress A from = Inr ()) = (normalized = account)
      \<and> (checkFromAddress A from = Inl (AddressMismatch account from)
           \<or> checkFromAddress A from = Inr ()))
   \<and> (signer_getAddress A = Inr account \<and> ethers_utils_getAddress A from = Inl e \<longrightarrow>
        checkFromAddress A from = Inl e)
   \<and> (signer_getAddress A = Inl e \<longrightarrow> checkFromAddress A from = Inl e)
   \<and> (checkFromAddress A from = Inr () \<longrightarrow>
        (\<exists>account. signer_getAddress A = Inr account
           \<and> ethers_utils_getAddress A from = Inr account))"
proof (intro conjI impI)
  assume "signer_getAddress A = Inr account \<and> ethers_utils_getAddress A from = Inr normalized"
  then have run: "checkFromAddress A from =
      (if normalized \<noteq> account then Inl (AddressMismatch account from) else Inr ())"
    by (simp add: checkFromAddress_def getAccount_def)
  show "(checkFromAddress A from = Inl (AddressMismatch account from)) = (normalized \<noteq> account)"
    by (simp add: run)
  show "(checkFromAddress A from = Inr ()) = (normalized = account)"
    by (simp add: run)
  show "checkFromAddress A from = Inl (AddressMismatch account from)
           \<or> checkFromAddress A from = Inr ()"
    by (simp add: run)
next
  assume "signer_getAddress A = Inr account \<and> ethers_utils_getAddress A from = Inl e"
  then show "checkFromAddress A from = Inl e"
    by (simp add: checkFromAddress_def getAccount_def)
next
  assume "signer_getAddress A = Inl e"
  then show "checkFromAddress A from = Inl e"
    by (simp add: checkFromAddress_def getAccount_def)
next
  assume "checkFromAddress A from = Inr ()"
  then show "\<exists>account. signer_getAddress A = Inr account
           \<and> ethers_utils_getAddress A from = Inr account"
    by (simp add: checkFromAddress_Inr)
qed

text \<open>
  On the sample adapter: the account in lower case and in upper case passes, the other
  account is refused with the mismatch error.
\<close>

theorem checkFromAddress_iff_witness:
  "checkFromAddress (sample_adapter (Inr Null)) (Str ''0xab5801a7d398351b8be11c439e05c5b3259aec9b'')
     = Inr ()
   \<and> checkFromAddress (sample_adapter (Inr Null)) (Str ''0xAB5801A7D398351B8BE11C439E05C5B3259AEC9B'')
     = Inr ()
   \<and> checkFromAddress (sample_adapter (Inr Null)) (Str other_account)
       = Inl (AddressMismatch sample_account (Str other_account))"
proof -
  let ?A = "sample_adapter (Inr Null)"
  have acc: "signer_getAddress ?A = Inr sample_account"
    by (simp add: sample_adapter_def)
  have low: "ethers_utils_getAddress ?A (Str ''0xab5801a7d398351b8be11c439e05c5b3259aec9b'')
               = Inr sample_account"
    by (simp add: sample_adapter_def sample_getAddress_lower)
  have upp: "ethers_utils_getAddress ?A (Str ''0xAB5801A7D398351B8BE11C439E05C5B3259AEC9B'')
               = Inr sample_account"
    by (simp add: sample_adapter_def sample_getAddress_upper)
  have oth: "ethers_utils_getAddress ?A (Str other_account) = Inr other_account"
    by (simp add: sample_adapter_def sample_getAddress_other)
  have ne: "other_account \<noteq> sample_account"
    by (simp add: sample_account_def other_account_def)
  show ?thesis
    using checkFromAddress_iff
            [of ?A sample_account "Str ''0xab5801a7d398351b8be11c439e05c5b3259aec9b''"
                sample_account]
          checkFromAddress_iff
            [of ?A sample_account "Str ''0xAB5801A7D398351B8BE11C439E05C5B3259AEC9B''"
                sample_account]
          checkFromAddress_iff [of ?A sample_account "Str other_account" other_account]
          acc low upp oth ne
    by simp
qed

text \<open>
  The spelling \<^verbatim>\<open>0xAB5801a7D398351b8bE11C439e05C5B3259aeC9B\<close> differs from the signer's
  account in the case of one letter only. It mixes cases and is not the checksum spelling,
  so \<^verbatim>\<open>getAddress\<close> throws, and \<open>checkFromAddress\<close> ends with that error: it does not
  succeed, and the error is not the mismatch error.
\<close>

theorem checkFromAddress_case_variant_counterexample:
  "map to_lower ''0xAB5801a7D398351b8bE11C439e05C5B3259aeC9B'' = map to_lower sample_account
   \<and> signer_getAddress (sample_adapter (Inr Null)) = Inr sample_account
   \<and> checkFromAddress (sample_adapter (Inr Null))
         (Str ''0xAB5801a7D398351b8bE11C439e05C5B3259aeC9B'')
       = Inl (Thrown (Str ''bad address checksum''))"
  by (simp add: checkFromAddress_def getAccount_def sample_adapter_def
        sample_getAddress_bad_checksum)
     (simp add: sample_account_def to_lower_def)



text \<open>
  C6. For every owner account and every options bag, \<open>getSendOptions\<close> returns the
  caller's options spread over the base object \<^verbatim>\<open>{ from: ownerAccount }\<close>. Key by key (an
  options bag has distinct keys): a key the caller supplies has the caller's value, the key
  \<^verbatim>\<open>from\<close> too; \<^verbatim>\<open>from\<close> has the owner account when the caller does not supply it; there
  is no other key. With the options omitted the result is exactly \<^verbatim>\<open>{ from: ownerAccount }\<close>.
\<close>

theorem getSendOptions_precedence:
  "getSendOptions ownerAccount None = [(''from'', Str ownerAccount)]
   \<and> getSendOptions ownerAccount (Some options) = spread [(''from'', Str ownerAccount)] options
   \<and> (distinct (map fst options) \<longrightarrow>
        map_of (getSendOptions ownerAccount (Some options)) k =
          (case map_of options k of
             Some v \<Rightarrow> Some v
           | None \<Rightarrow> if k = ''from'' then Some (Str ownerAccount) else None))
   \<and> distinct (map fst (getSendOptions ownerAccount (Some options)))"
  by (simp add: getSendOptions_def spread_opt_def map_of_spread map_of_rev_distinct map_add_def
        distinct_spread split: option.splits)

text \<open>On the sample adapter:\<close>

theorem getSendOptions_precedence_witness:
  "getSendOptions sample_account (Some sample_options) = sample_options
   \<and> map_of (getSendOptions sample_account (Some sample_options)) ''from''
       = Some (Str other_account)
   \<and> map_of (getSendOptions sample_account (Some [(''gas'', Num 50000)])) ''from''
       = Some (Str sample_account)
   \<and> getSendOptions sample_account None = [(''from'', Str sample_account)]"
proof -
  have d: "distinct (map fst sample_options)" "distinct (map fst [(''gas'', Num 50000)])"
    by (simp_all add: sample_options_def)
  have s: "getSendOptions sample_account (Some sample_options) = sample_options"
    by (simp add: getSendOptions_def spread_opt_def sample_options_def)
  show ?thesis
    using getSendOptions_precedence [of sample_account sample_options "''from''"]
      getSendOptions_precedence [of sample_account "[(''gas'', Num 50000)]" "''from''"] d s
    by (simp add: sample_options_def)
qed

text \<open>
  C7. For a method \<open>f\<close> of the Abi whose call data encodes and whose call succeeds,
  \<open>call\<close> decodes the returned hex with the method's decoder, which yields one value for
  each declared output. With exactly one declared output the result is that value itself,
  not a one-element array; with two or more (and with none) it is the array of all decoded
  values in order.
\<close>

theorem call_unwraps_single_value:
  assumes "interface_functions C methodName = Some f"
    and "fn_encode f params = Inr data"
    and "ethCall A (obj_set ''data'' (Str data)
                     (obj_set ''to'' (Str (address C)) (spread_opt [] options)))
           (Str ''latest'') = (Inr resHex, t)"
    and "fn_decode f resHex = Inr rets"
    and "length rets = length (outputs f)"
  shows "(length (outputs f) = 1 \<longrightarrow>
            call A C methodName params options = (Inr (hd rets), t) \<and> rets = [hd rets])
       \<and> (2 \<le> length (outputs f) \<longrightarrow>
            call A C methodName params options = (Inr (Arr rets), t))
       \<and> (length (outputs f) \<noteq> 1 \<longrightarrow>
            call A C methodName params options = (Inr (Arr rets), t))"
proof -
  have run: "call A C methodName params options =
               (Inr (if length rets = 1 then rets ! 0 else Arr rets), t)"
    using assms(1-4) by (simp add: call_def encode_def decode_def sync_def)
  have one: "rets ! 0 = hd rets \<and> rets = [hd rets]" if "length rets = 1"
    using that by (cases rets) simp_all
  show ?thesis
    using run one assms(5) by auto
qed

text \<open>On the sample adapter:\<close>

theorem call_unwraps_single_value_witness:
  "call (sample_adapter (Inr (Str ''0x07''))) sample_contract ''balanceOf'' [Str sample_account] None
     = (Inr (Num 7),
        [ProviderSend ''eth_call''
           [Obj [(''to'', Str other_account), (''data'', Str ''0x70a08231'')], Str ''latest'']])
   \<and> call (sample_adapter (Inr (Str ''0x0102''))) sample_contract ''getReserves'' [] None
     = (Inr (Arr [Num 1, Num 2]),
        [ProviderSend ''eth_call''
           [Obj [(''to'', Str other_account), (''data'', Str ''0x0902f1ac'')], Str ''latest'']])"
proof -
  let ?f = "\<lparr> outputs = [''uint256''], fn_encode = (\<lambda>params. Inr ''0x70a08231''),
              fn_decode = (\<lambda>resHex. Inr [Num 7]) \<rparr>"
  let ?g = "\<lparr> outputs = [''uint112'', ''uint112''], fn_encode = (\<lambda>params. Inr ''0x0902f1ac''),
              fn_decode = (\<lambda>resHex. Inr [Num 1, Num 2]) \<rparr>"
  have f: "interface_functions sample_contract ''balanceOf'' = Some ?f"
    by (simp add: sample_contract_def)
  have g: "interface_functions sample_contract ''getReserves'' = Some ?g"
    by (simp add: sample_contract_def)
  have tx: "obj_set ''data'' (Str d) (obj_set ''to'' (Str (address sample_contract)) (spread_opt [] None))
              = [(''to'', Str other_account), (''data'', Str d)]" for d
    by (simp add: spread_opt_def address_def sample_contract_def)
  have "call (sample_adapter (Inr (Str ''0x07''))) sample_contract ''balanceOf'' [Str sample_account] None
          = (Inr (hd [Num 7]), [ProviderSend ''eth_call''
               [Obj [(''to'', Str other_account), (''data'', Str ''0x70a08231'')], Str ''latest'']])"
    using call_unwraps_single_value [OF f, of "[Str sample_account]" "''0x70a08231''"
        "sample_adapter (Inr (Str ''0x07''))" None "Str ''0x07''" _ "[Num 7]"]
    by (simp add: tx ethCall_sample)
  moreover
  have "call (sample_adapter (Inr (Str ''0x0102''))) sample_contract ''getReserves'' [] None
          = (Inr (Arr [Num 1, Num 2]), [ProviderSend ''eth_call''
               [Obj [(''to'', Str other_account), (''data'', Str ''0x0902f1ac'')], Str ''latest'']])"
    using call_unwraps_single_value [OF g, of "[]" "''0x0902f1ac''"
        "sample_adapter (Inr (Str ''0x0102''))" None "Str ''0x0102''" _ "[Num 1, Num 2]"]
    by (simp add: tx ethCall_sample)
  ultimately show ?thesis by simp
qed

text \<open>
  C8, as the code has it. \<open>estimateGas\<close> returns the integer that \<^verbatim>\<open>toNumber()\<close> gives
  for the contract's estimate; its only request is that estimate, never a submission.
  Without options it passes the parameters alone. With options it normalizes the gas and
  passes \<^verbatim>\<open>{ gasLimit: gas, ...callOptions }\<close>, where \<^verbatim>\<open>callOptions\<close> still holds \<^verbatim>\<open>from\<close>,
  as the last argument. Unlike \<open>send\<close> it never verifies \<^verbatim>\<open>from\<close>, with or without
  options: neither the signer's account nor the address normalizer has any influence on it.
\<close>

theorem estimateGas_without_from_check:
  "(\<forall>ev \<in> set (snd (estimateGas A C methodName params options)).
      (\<exists>args. ev = ContractEstimate methodName args) \<and> \<not> is_submission ev)
   \<and> (contract_estimate C methodName = Some g \<longrightarrow>
        estimateGas A C methodName params None
          = (bind_r (g params) toNumber, [ContractEstimate methodName params]))
   \<and> (contract_estimate C methodName = Some g \<and> normalizeGasLimit A opts = Inr normalized \<longrightarrow>
        estimateGas A C methodName params (Some opts)
          = (bind_r (g (params @ [Obj (spread [(''gasLimit'', obj_get normalized ''gas'')]
                                         (rest_without [''gas''] normalized))])) toNumber,
             [ContractEstimate methodName
                (params @ [Obj (spread [(''gasLimit'', obj_get normalized ''gas'')]
                                  (rest_without [''gas''] normalized))])]))
   \<and> estimateGas (A\<lparr>signer_getAddress := account, ethers_utils_getAddress := checksum\<rparr>)
        C methodName params options
       = estimateGas A C methodName params options"
proof (intro conjI ballI impI)
  fix ev
  assume "ev \<in> set (snd (estimateGas A C methodName params options))"
  then obtain args where ev: "ev = ContractEstimate methodName args"
    by (blast dest: snd_estimateGas)
  then show "\<exists>args. ev = ContractEstimate methodName args" by blast
  from ev show "\<not> is_submission ev" by simp
next
  assume "contract_estimate C methodName = Some g"
  then show "estimateGas A C methodName params None
          = (bind_r (g params) toNumber, [ContractEstimate methodName params])"
    by (rule estimateGas_None)
next
  assume "contract_estimate C methodName = Some g \<and> normalizeGasLimit A opts = Inr normalized"
  then show "estimateGas A C methodName params (Some opts)
          = (bind_r (g (params @ [Obj (spread [(''gasLimit'', obj_get normalized ''gas'')]
                                         (rest_without [''gas''] normalized))])) toNumber,
             [ContractEstimate methodName
                (params @ [Obj (spread [(''gasLimit'', obj_get normalized ''gas'')]
                                  (rest_without [''gas''] normalized))])])"
    by (simp add: estimateGas_Some)
next
  show "estimateGas (A\<lparr>signer_getAddress := account, ethers_utils_getAddress := checksum\<rparr>)
        C methodName params options
       = estimateGas A C methodName params options"
    by (cases options) (simp_all add: estimateGas_def)
qed

text \<open>On the sample adapter:\<close>

theorem estimateGas_without_from_check_witness:
  "estimateGas (sample_adapter (Inr Null)) sample_contract ''transfer'' [Num 3] None
     = (Inr 21000, [ContractEstimate ''transfer'' [Num 3]])
   \<and> estimateGas (sample_adapter (Inr Null)) sample_contract ''transfer'' [Num 3] (Some own_options)
     = (Inr 21000,
        [ContractEstimate ''transfer''
           [Num 3, Obj [(''gasLimit'', Num 50000), (''from'', Str sample_account), (''value'', Num 1)]]])"
proof -
  let ?A = "sample_adapter (Inr Null)"
  have n: "normalizeGasLimit ?A own_options = Inr own_options"
    by (simp add: sample_adapter_def)
  have g: "contract_estimate sample_contract ''transfer''
             = Some (\<lambda>args. Inr (BigNumber (Inr 21000)))"
    by (simp add: sample_contract_def)
  have args: "spread [(''gasLimit'', obj_get own_options ''gas'')] (rest_without [''gas''] own_options)
          = [(''gasLimit'', Num 50000), (''from'', Str sample_account), (''value'', Num 1)]"
    by (simp add: own_options_def obj_get_def rest_without_def)
  note inst = estimateGas_without_from_check
      [of ?A sample_contract "''transfer''" "[Num 3]" "Some own_options"
          "\<lambda>args. Inr (BigNumber (Inr 21000))" own_options own_options]
  show ?thesis
    using inst g n by (simp add: args)
qed

text \<open>
  With options that name another account as sender, \<open>send\<close> refuses and dispatches
  nothing, while \<open>estimateGas\<close> dispatches the estimate and returns it.
\<close>

theorem estimateGas_skips_from_check_counterexample:
  "checkFromAddress (sample_adapter (Inr Null)) (obj_get sample_options ''from'')
     = Inl (AddressMismatch sample_account (Str other_account))
   \<and> send (sample_adapter (Inr Null)) sample_contract ''transfer'' [Num 3] (Some sample_options)
     = (Inl (AddressMismatch sample_account (Str other_account)), [])
   \<and> estimateGas (sample_adapter (Inr Null)) sample_contract ''transfer'' [Num 3] (Some sample_options)
     = (Inr 21000,
        [ContractEstimate ''transfer''
           [Num 3, Obj [(''gasLimit'', Num 50000), (''from'', Str other_account), (''value'', Num 1)]]])"
proof -
  let ?A = "sample_adapter (Inr Null)"
  have n: "normalizeGasLimit ?A sample_options = Inr sample_options"
    by (simp add: sample_adapter_def)
  have fr: "obj_get sample_options ''from'' = Str other_account"
    by (simp add: sample_options_def obj_get_def)
  have ne: "other_account \<noteq> sample_account"
    by (simp add: sample_account_def other_account_def)
  have c: "checkFromAddress ?A (Str other_account)
             = Inl (AddressMismatch sample_account (Str other_account))"
    using ne by (simp add: checkFromAddress_def getAccount_def sample_adapter_def
          sample_getAddress_other)
  have s: "send ?A sample_contract ''transfer'' [Num 3] (Some sample_options)
     = (Inl (AddressMismatch sample_account (Str other_account)), [])"
    by (simp add: send_def n Let_def fr c)
  have g: "contract_estimate sample_contract ''transfer''
             = Some (\<lambda>args. Inr (BigNumber (Inr 21000)))"
    by (simp add: sample_contract_def)
  have e: "estimateGas ?A sample_contract ''transfer'' [Num 3] (Some sample_options)
     = (Inr 21000,
        [ContractEstimate ''transfer''
           [Num 3, Obj [(''gasLimit'', Num 50000), (''from'', Str other_account), (''value'', Num 1)]]])"
    by (simp add: estimateGas_Some [OF g n])
       (simp add: sample_options_def obj_get_def rest_without_def)
  show ?thesis using c s e by (simp add: fr)
qed

text \<open>
  C9. Whatever the options, every request \<open>call\<close> hands to the provider is an
  \<^verbatim>\<open>eth_call\<close> whose block parameter is \<^verbatim>\<open>latest\<close>; the options only reach the
  transaction object. When the call data encodes and the call formats, there is exactly
  one such request.
\<close>

theorem call_block_is_latest:
  "(\<forall>ev \<in> set (snd (call A C methodName params options)).
      \<exists>callTx. ev = ProviderSend ''eth_call'' [callTx, Str ''latest''])
   \<and> (encode C methodName params = Inr data
        \<and> formatCallTx A (obj_set ''data'' (Str data)
             (obj_set ''to'' (Str (address C)) (spread_opt [] options))) = Inr callTx \<longrightarrow>
      snd (call A C methodName params options) = [ProviderSend ''eth_call'' [callTx, Str ''latest'']])"
proof -
  let ?tx = "\<lambda>data. obj_set ''data'' (Str data)
             (obj_set ''to'' (Str (address C)) (spread_opt [] options))"
  have tr: "snd (call A C methodName params options) =
          (case encode C methodName params of
             Inl e \<Rightarrow> []
           | Inr data \<Rightarrow> snd (ethCall A (?tx data) (Str ''latest'')))"
  proof (cases "encode C methodName params")
    case (Inl e)
    then show ?thesis by (simp add: call_def)
  next
    case (Inr data)
    obtain r t where ec: "ethCall A (?tx data) (Str ''latest'') = (r, t)"
      by (cases "ethCall A (?tx data) (Str ''latest'')")
    show ?thesis
    proof (cases r)
      case (Inl e)
      with Inr ec show ?thesis by (simp add: call_def)
    next
      case r: (Inr resHex)
      show ?thesis
        using Inr ec r
        by (cases "decode C methodName resHex") (simp_all add: call_def sync_def)
    qed
  qed
  show ?thesis
    by (auto simp: tr snd_ethCall split: sum.splits)
qed

text \<open>On the sample adapter:\<close>

theorem call_block_is_latest_witness:
  "snd (call (sample_adapter (Inr (Str ''0x07''))) sample_contract ''balanceOf'' [Str sample_account]
          (Some [(''blockTag'', Str ''earliest''), (''block'', Num 1)]))
     = [ProviderSend ''eth_call''
          [Obj [(''blockTag'', Str ''earliest''), (''block'', Num 1), (''to'', Str other_account),
                (''data'', Str ''0x70a08231'')], Str ''latest'']]"
proof -
  let ?A = "sample_adapter (Inr (Str ''0x07''))"
  let ?o = "Some [(''blockTag'', Str ''earliest''), (''block'', Num 1)]"
  let ?tx = "[(''blockTag'', Str ''earliest''), (''block'', Num 1), (''to'', Str other_account),
                (''data'', Str ''0x70a08231'')]"
  have e: "encode sample_contract ''balanceOf'' [Str sample_account] = Inr ''0x70a08231''"
    by (simp add: encode_def sample_contract_def)
  have tx: "obj_set ''data'' (Str ''0x70a08231'')
             (obj_set ''to'' (Str (address sample_contract)) (spread_opt [] ?o)) = ?tx"
    by (simp add: spread_opt_def address_def sample_contract_def)
  have f: "formatCallTx ?A ?tx = Inr (Obj ?tx)"
    by (simp add: sample_adapter_def)
  show ?thesis
    using call_block_is_latest [of ?A sample_contract "''balanceOf''" "[Str sample_account]" ?o
             "''0x70a08231''" "Obj ?tx"] e f
    by (simp only: tx)
qed

text \<open>
  C10. For a bag whose normalized form has distinct keys, none of them \<^verbatim>\<open>gasLimit\<close>:
  every object dispatched by \<open>ethSendTransaction\<close>, by \<open>send\<close> and by \<open>estimateGas\<close>
  (the last argument, for the two contract methods) has the normalized \<^verbatim>\<open>gas\<close> value
  under \<^verbatim>\<open>gasLimit\<close>, has no \<^verbatim>\<open>gas\<close>, has no \<^verbatim>\<open>from\<close> for \<open>ethSendTransaction\<close> and
  \<open>send\<close>, and has every other key of the normalized bag with its value. The first two
  dispatch once the sender check has passed (and the contract has the method);
  \<open>estimateGas\<close> dispatches whenever the contract has the method, whatever \<^verbatim>\<open>from\<close> is.
\<close>

theorem dispatched_bag_frame:
  assumes "normalizeGasLimit A bag = Inr normalized"
    and "distinct (map fst normalized)"
    and "''gasLimit'' \<notin> set (map fst normalized)"
  shows "(\<forall>ev \<in> set (snd (ethSendTransaction A bag)).
            \<exists>request. ev = SignerSendTransaction (Obj request)
              \<and> map_of request = renamed_bag [''from''] normalized)
       \<and> (\<forall>ev \<in> set (snd (send A C methodName params (Some bag))).
            \<exists>request. ev = ContractFunction methodName (params @ [Obj request])
              \<and> map_of request = renamed_bag [''from''] normalized)
       \<and> (\<forall>ev \<in> set (snd (estimateGas A C methodName params (Some bag))).
            \<exists>request. ev = ContractEstimate methodName (params @ [Obj request])
              \<and> map_of request = renamed_bag [] normalized)
       \<and> (checkFromAddress A (obj_get normalized ''from'') = Inr () \<longrightarrow>
            (\<exists>request. snd (ethSendTransaction A bag) = [SignerSendTransaction (Obj request)]
               \<and> map_of request = renamed_bag [''from''] normalized))
       \<and> (checkFromAddress A (obj_get normalized ''from'') = Inr ()
            \<and> contract_functions C methodName = Some f \<longrightarrow>
            (\<exists>request. snd (send A C methodName params (Some bag))
                         = [ContractFunction methodName (params @ [Obj request])]
               \<and> map_of request = renamed_bag [''from''] normalized))
       \<and> (contract_estimate C methodName = Some g \<longrightarrow>
            (\<exists>request. snd (estimateGas A C methodName params (Some bag))
                         = [ContractEstimate methodName (params @ [Obj request])]
               \<and> map_of request = renamed_bag [] normalized))"
proof -
  let ?gas = "obj_get normalized ''gas''"
  let ?sent = "spread [(''gasLimit'', ?gas)] (rest_without [''from'', ''gas''] normalized)"
  let ?est = "spread [(''gasLimit'', ?gas)] (rest_without [''gas''] normalized)"
  have sent: "map_of ?sent = renamed_bag [''from''] normalized"
    unfolding rest_without_commute by (rule map_of_request [OF assms(2,3)])
  have est: "map_of ?est = renamed_bag [] normalized"
    by (rule map_of_request [OF assms(2,3)])
  note tr = snd_ethSendTransaction [OF assms(1)] snd_send [OF assms(1)]
    snd_estimateGas_Some [OF assms(1)]
  have a: "\<forall>ev \<in> set (snd (ethSendTransaction A bag)).
            \<exists>request. ev = SignerSendTransaction (Obj request)
              \<and> map_of request = renamed_bag [''from''] normalized"
    using sent by (simp add: tr)
  have b: "\<forall>ev \<in> set (snd (send A C methodName params (Some bag))).
            \<exists>request. ev = ContractFunction methodName (params @ [Obj request])
              \<and> map_of request = renamed_bag [''from''] normalized"
    by (subst snd_send [OF assms(1)],
        cases "checkFromAddress A (obj_get normalized ''from'') = Inr ()",
        cases "contract_functions C methodName")
       (simp_all add: sent)
  have c: "\<forall>ev \<in> set (snd (estimateGas A C methodName params (Some bag))).
            \<exists>request. ev = ContractEstimate methodName (params @ [Obj request])
              \<and> map_of request = renamed_bag [] normalized"
    by (subst snd_estimateGas_Some [OF assms(1)], cases "contract_estimate C methodName")
       (simp_all add: est)
  have d: "checkFromAddress A (obj_get normalized ''from'') = Inr () \<longrightarrow>
            (\<exists>request. snd (ethSendTransaction A bag) = [SignerSendTransaction (Obj request)]
               \<and> map_of request = renamed_bag [''from''] normalized)"
    using sent by (simp add: tr)
  have e: "checkFromAddress A (obj_get normalized ''from'') = Inr ()
            \<and> contract_functions C methodName = Some f \<longrightarrow>
            (\<exists>request. snd (send A C methodName params (Some bag))
                         = [ContractFunction methodName (params @ [Obj request])]
               \<and> map_of request = renamed_bag [''from''] normalized)"
    using sent by (simp add: tr)
  have f: "contract_estimate C methodName = Some g \<longrightarrow>
            (\<exists>request. snd (estimateGas A C methodName params (Some bag))
                         = [ContractEstimate methodName (params @ [Obj request])]
               \<and> map_of request = renamed_bag [] normalized)"
    using est by (simp add: tr)
  from a b c d e f show ?thesis by blast
qed

text \<open>
  On the sample adapter: a bag naming the signer's own account, dispatched by all three;
  and, for \<open>estimateGas\<close>, a bag naming another account and a bag without \<^verbatim>\<open>from\<close>.
\<close>

theorem dispatched_bag_frame_witness:
  "snd (ethSendTransaction (sample_adapter (Inr Null)) own_options)
     = [SignerSendTransaction (Obj [(''gasLimit'', Num 50000), (''value'', Num 1)])]
   \<and> snd (send (sample_adapter (Inr Null)) sample_contract ''transfer'' [Num 3] (Some own_options))
     = [ContractFunction ''transfer'' [Num 3, Obj [(''gasLimit'', Num 50000), (''value'', Num 1)]]]
   \<and> snd (estimateGas (sample_adapter (Inr Null)) sample_contract ''transfer'' [Num 3]
            (Some own_options))
     = [ContractEstimate ''transfer''
          [Num 3, Obj [(''gasLimit'', Num 50000), (''from'', Str sample_account), (''value'', Num 1)]]]
   \<and> snd (estimateGas (sample_adapter (Inr Null)) sample_contract ''transfer'' [Num 3]
            (Some sample_options))
     = [ContractEstimate ''transfer''
          [Num 3, Obj [(''gasLimit'', Num 50000), (''from'', Str other_account), (''value'', Num 1)]]]
   \<and> snd (estimateGas (sample_adapter (Inr Null)) sample_contract ''transfer'' [Num 3]
            (Some [(''gas'', Num 50000)]))
     = [ContractEstimate ''transfer'' [Num 3, Obj [(''gasLimit'', Num 50000)]]]
   \<and> map_of [(''gasLimit'', Num 50000), (''value'', Num 1)] = renamed_bag [''from''] own_options
   \<and> map_of [(''gasLimit'', Num 50000), (''from'', Str other_account), (''value'', Num 1)]
       = renamed_bag [] sample_options
   \<and> map_of [(''gasLimit'', Num 50000)] = renamed_bag [] [(''gas'', Num 50000)]
   \<and> renamed_bag [''from''] own_options ''gasLimit'' = Some (Num 50000)
   \<and> renamed_bag [''from''] own_options ''from'' = None
   \<and> renamed_bag [''from''] own_options ''gas'' = None
   \<and> renamed_bag [''from''] own_options ''value'' = Some (Num 1)
   \<and> renamed_bag [] sample_options ''from'' = Some (Str other_account)"
proof -
  let ?A = "sample_adapter (Inr Null)"
  let ?bare = "[(''gas'', Num 50000)]"
  have n: "normalizeGasLimit ?A bag = Inr bag" for bag
    by (simp add: sample_adapter_def)
  have d: "distinct (map fst own_options)" "distinct (map fst sample_options)"
      "distinct (map fst ?bare)"
    by (simp_all add: own_options_def sample_options_def)
  have l: "''gasLimit'' \<notin> set (map fst own_options)"
      "''gasLimit'' \<notin> set (map fst sample_options)" "''gasLimit'' \<notin> set (map fst ?bare)"
    by (simp_all add: own_options_def sample_options_def)
  have c: "checkFromAddress ?A (obj_get own_options ''from'') = Inr ()"
    by (simp add: checkFromAddress_def getAccount_def sample_adapter_def own_options_def
          obj_get_def sample_getAddress_own)
  have f: "contract_functions sample_contract ''transfer''
             = Some (\<lambda>args. Inr (Obj [(''hash'', Str ''0x02'')]))"
    by (simp add: sample_contract_def)
  have g: "contract_estimate sample_contract ''transfer''
             = Some (\<lambda>args. Inr (BigNumber (Inr 21000)))"
    by (simp add: sample_contract_def)
  have r: "renamed_bag [''from''] own_options ''gasLimit'' = Some (Num 50000)"
      "renamed_bag [''from''] own_options ''from'' = None"
      "renamed_bag [''from''] own_options ''gas'' = None"
      "renamed_bag [''from''] own_options ''value'' = Some (Num 1)"
      "renamed_bag [] sample_options ''from'' = Some (Str other_account)"
    by (simp_all add: renamed_bag_def own_options_def sample_options_def obj_get_def)
  have s1: "snd (ethSendTransaction ?A own_options)
     = [SignerSendTransaction (Obj [(''gasLimit'', Num 50000), (''value'', Num 1)])]"
    by (simp add: snd_ethSendTransaction [OF n] c)
       (simp add: own_options_def obj_get_def rest_without_def)
  have s2: "snd (send ?A sample_contract ''transfer'' [Num 3] (Some own_options))
     = [ContractFunction ''transfer'' [Num 3, Obj [(''gasLimit'', Num 50000), (''value'', Num 1)]]]"
    by (simp add: snd_send [OF n] c f)
       (simp add: own_options_def obj_get_def rest_without_def)
  have s3: "snd (estimateGas ?A sample_contract ''transfer'' [Num 3] (Some own_options))
     = [ContractEstimate ''transfer''
          [Num 3, Obj [(''gasLimit'', Num 50000), (''from'', Str sample_account), (''value'', Num 1)]]]"
    by (simp add: snd_estimateGas_Some [OF n] g)
       (simp add: own_options_def obj_get_def rest_without_def)
  have s4: "snd (estimateGas ?A sample_contract ''transfer'' [Num 3] (Some sample_options))
     = [ContractEstimate ''transfer''
          [Num 3, Obj [(''gasLimit'', Num 50000), (''from'', Str other_account), (''value'', Num 1)]]]"
    by (simp add: snd_estimateGas_Some [OF n] g)
       (simp add: sample_options_def obj_get_def rest_without_def)
  have s5: "snd (estimateGas ?A sample_contract ''transfer'' [Num 3] (Some ?bare))
     = [ContractEstimate ''transfer'' [Num 3, Obj [(''gasLimit'', Num 50000)]]]"
    by (simp add: snd_estimateGas_Some [OF n] g)
       (simp add: obj_get_def rest_without_def)
  note own = dispatched_bag_frame [OF n d(1) l(1),
      where C = sample_contract and methodName = "''transfer''" and params = "[Num 3]"
        and f = "\<lambda>args. Inr (Obj [(''hash'', Str ''0x02'')])"
        and g = "\<lambda>args. Inr (BigNumber (Inr 21000))"]
  note other = dispatched_bag_frame [OF n d(2) l(2),
      where C = sample_contract and methodName = "''transfer''" and params = "[Num 3]"
        and g = "\<lambda>args. Inr (BigNumber (Inr 21000))"]
  note bare = dispatched_bag_frame [OF n d(3) l(3),
      where C = sample_contract and methodName = "''transfer''" and params = "[Num 3]"
        and g = "\<lambda>args. Inr (BigNumber (Inr 21000))"]
  have m1: "map_of [(''gasLimit'', Num 50000), (''value'', Num 1)]
              = renamed_bag [''from''] own_options"
    using own c s1 by auto
  have m2: "map_of [(''gasLimit'', Num 50000), (''from'', Str other_account), (''value'', Num 1)]
              = renamed_bag [] sample_options"
    using other g s4 by auto
  have m3: "map_of [(''gasLimit'', Num 50000)] = renamed_bag [] ?bare"
    using bare g s5 by auto
  from s1 s2 s3 s4 s5 m1 m2 m3 r show ?thesis by blast
qed

end
